theory Spec2Isabelle
  imports Complex_Main "HOL-Library.Product_Lexorder" "HOL-Library.Multiset"
begin

section \<open>Python strings\<close>

text \<open>
  A Python \<open>str\<close> is a sequence of Unicode code points, so it is modelled as a list of
  natural numbers. \<open>py\<close> turns an ASCII literal into such a list.
\<close>

type_synonym pystr = "nat list"

definition py :: "string \<Rightarrow> pystr" where
  "py s = map of_char s"

text \<open>\<open>s.startswith(p)\<close>, \<open>s.startswith((p1, p2, ...))\<close> and \<open>s.endswith(p)\<close>.\<close>

definition startswith :: "'a list \<Rightarrow> 'a list \<Rightarrow> bool" where
  "startswith p s = (take (length p) s = p)"

definition startswith_any :: "'a list list \<Rightarrow> 'a list \<Rightarrow> bool" where
  "startswith_any ps s = list_ex (\<lambda>p. startswith p s) ps"

definition endswith :: "'a list \<Rightarrow> 'a list \<Rightarrow> bool" where
  "endswith p s = (length p \<le> length s \<and> drop (length s - length p) s = p)"

text \<open>\<open>sub in s\<close>: \<open>sub\<close> occurs in \<open>s\<close> as a contiguous run.\<close>

fun contains :: "'a list \<Rightarrow> 'a list \<Rightarrow> bool" where
  "contains sub [] = (sub = [])"
| "contains sub (c # cs) = (startswith sub (c # cs) \<or> contains sub cs)"

text \<open>
  \<open>s.replace(old, new)\<close> scans from the left and replaces every occurrence of \<open>old\<close>
  that does not overlap an earlier replaced one. Every call in the source has a non-empty
  \<open>old\<close>; with an empty \<open>old\<close> Python puts \<open>new\<close> around every character.
\<close>

function replace_nonempty :: "'a list \<Rightarrow> 'a list \<Rightarrow> 'a list \<Rightarrow> 'a list" where
  "replace_nonempty old new [] = []"
| "replace_nonempty old new (c # cs) =
     (if old \<noteq> [] \<and> startswith old (c # cs)
      then new @ replace_nonempty old new (drop (length old) (c # cs))
      else c # replace_nonempty old new cs)"
  by pat_completeness auto
termination
  by (relation "measure (\<lambda>(old, new, s). length s)") auto

definition replace :: "'a list \<Rightarrow> 'a list \<Rightarrow> 'a list \<Rightarrow> 'a list" where
  "replace old new s =
     (if old = [] then new @ concat (map (\<lambda>c. c # new) s) else replace_nonempty old new s)"

text \<open>\<open>s.count(sub)\<close> for a non-empty \<open>sub\<close>: the number of non-overlapping occurrences.\<close>

function count_nonempty :: "'a list \<Rightarrow> 'a list \<Rightarrow> nat" where
  "count_nonempty sub [] = 0"
| "count_nonempty sub (c # cs) =
     (if sub \<noteq> [] \<and> startswith sub (c # cs)
      then Suc (count_nonempty sub (drop (length sub) (c # cs)))
      else count_nonempty sub cs)"
  by pat_completeness auto
termination
  by (relation "measure (\<lambda>(sub, s). length s)") auto

definition count :: "'a list \<Rightarrow> 'a list \<Rightarrow> nat" where
  "count sub s = (if sub = [] then Suc (length s) else count_nonempty sub s)"

text \<open>\<open>s.split(sep)\<close> for a one-character separator, and \<open>s.rstrip(chars)\<close>.\<close>

fun split_char :: "'a \<Rightarrow> 'a list \<Rightarrow> 'a list list" where
  "split_char sep [] = [[]]"
| "split_char sep (c # cs) =
     (if c = sep then [] # split_char sep cs
      else (case split_char sep cs of
              [] \<Rightarrow> [[c]]
            | piece # pieces \<Rightarrow> (c # piece) # pieces))"

definition rstrip_chars :: "'a list \<Rightarrow> 'a list \<Rightarrow> 'a list" where
  "rstrip_chars chars s = rev (dropWhile (\<lambda>c. c \<in> set chars) (rev s))"

text \<open>
  \<open>s.strip()\<close> removes leading and trailing whitespace. The whitespace code points are
  those of CPython's \<open>str.isspace\<close>: U+0009 to U+000D, U+001C to U+0020, U+0085, U+00A0,
  U+1680, U+2000 to U+200A, U+2028, U+2029, U+202F, U+205F and U+3000.
\<close>

definition isspace :: "nat \<Rightarrow> bool" where
  "isspace c =
     ((9 \<le> c \<and> c \<le> 13) \<or> (28 \<le> c \<and> c \<le> 32) \<or> c = 133 \<or> c = 160 \<or> c = 5760 \<or>
      (8192 \<le> c \<and> c \<le> 8202) \<or> c = 8232 \<or> c = 8233 \<or> c = 8239 \<or> c = 8287 \<or> c = 12288)"

definition strip :: "pystr \<Rightarrow> pystr" where
  "strip s = rev (dropWhile isspace (rev (dropWhile isspace s)))"

text \<open>\<open>str(n)\<close> for an integer: its decimal digits, with a minus sign when negative.\<close>

fun str_nat :: "nat \<Rightarrow> pystr" where
  "str_nat n = (if n < 10 then [48 + n] else str_nat (n div 10) @ [48 + n mod 10])"

declare str_nat.simps [simp del]

definition str_int :: "int \<Rightarrow> pystr" where
  "str_int i = (if i < 0 then 45 # str_nat (nat (- i)) else str_nat (nat i))"

section \<open>The link validator: \<open>validate_url\<close>\<close>

text \<open>
  What \<open>requests.get\<close> can do on one call: return a response, or raise. The handlers of
  \<open>validate_url\<close> tell four kinds of exception apart, in this order: \<open>Timeout\<close>,
  \<open>ConnectionError\<close>, any other \<open>RequestException\<close>, any other \<open>Exception\<close>; the last
  two carry \<open>str(e)\<close>. A response carries its status code, the measured response time
  (\<open>round(ms, 2)\<close>, kept as an integer number of hundredths of a millisecond) and what
  \<open>BeautifulSoup(response.content, 'html.parser')\<close> makes of the body: either the
  constructor raises, with \<open>str(parse_error)\<close>, or it builds a document, of which the code
  reads \<open>soup.find('title')\<close> (the text of the title tag when there is one) and
  \<open>soup.get_text()\<close>.
\<close>

datatype parse_outcome =
  ParseError pystr
| Soup "pystr option" pystr

datatype http_outcome =
  Response int int parse_outcome
| Timeout
| ConnectionError
| RequestException pystr
| OtherException pystr

text \<open>
  The environment of the program: the network, and the library functions whose result
  depends on Unicode tables or on the standard library. \<open>http_get env n u t\<close> is the
  outcome of the \<open>n\<close>-th GET request of the run, made for URL \<open>u\<close> with timeout \<open>t\<close>, so
  two requests for one URL may differ. \<open>lower\<close> is \<open>str.lower\<close>, and
  \<open>urlparse_netloc u\<close> is \<open>urlparse(u).netloc\<close>, or \<open>None\<close> when \<open>urlparse\<close> raises.
  \<open>unicode_isdigit\<close> and \<open>unicode_decimal\<close> give, for a code point beyond ASCII, whether
  \<open>str.isdigit\<close> holds of it and its value as a decimal digit when \<open>float\<close> reads it as
  one.
\<close>

record env =
  http_get :: "nat \<Rightarrow> pystr \<Rightarrow> int \<Rightarrow> http_outcome"
  lower :: "pystr \<Rightarrow> pystr"
  urlparse_netloc :: "pystr \<Rightarrow> pystr option"
  unicode_isdigit :: "nat \<Rightarrow> bool"
  unicode_decimal :: "nat \<Rightarrow> nat option"

text \<open>
  The effects of a run, as a trace: the URLs \<open>validate_url\<close> was called with, and the URLs
  a GET request was sent for, both in order.
\<close>

record world =
  validate_calls :: "pystr list"
  http_requests :: "pystr list"

record validation_result =
  url :: pystr
  status :: pystr
  status_code :: "int option"
  response_time :: "int option"
  error_message :: "pystr option"
  is_working :: bool
  contains_funding_keywords :: bool
  page_title :: "pystr option"

definition funding_keywords :: "pystr list" where
  "funding_keywords =
     [py ''grant'', py ''funding'', py ''subvention'', py ''aide'', py ''financement'',
      py ''scholarship'', py ''bourse'', py ''subsidy'', py ''support'', py ''program'',
      py ''programme'', py ''application'', py ''deadline'', py ''eligibility'']"

text \<open>The body of the inner \<open>try\<close>, run on a response with status 200.\<close>

definition parse_content :: "env \<Rightarrow> parse_outcome \<Rightarrow> validation_result \<Rightarrow> validation_result" where
  "parse_content e parse validation_result =
     (case parse of
        ParseError msg \<Rightarrow>
          validation_result\<lparr>error_message := Some (py ''Content parsing failed: '' @ msg)\<rparr>
      | Soup title_tag text \<Rightarrow>
          (let validation_result =
                 (case title_tag of
                    None \<Rightarrow> validation_result
                  | Some t \<Rightarrow> validation_result\<lparr>page_title := Some (strip t)\<rparr>);
               page_text = lower e text
           in validation_result\<lparr>contains_funding_keywords :=
                list_ex (\<lambda>keyword. contains keyword page_text) funding_keywords\<rparr>))"

definition classify_response :: "env \<Rightarrow> int \<Rightarrow> parse_outcome \<Rightarrow> validation_result \<Rightarrow> validation_result" where
  "classify_response e code parse validation_result =
     (if code = 200 then
        parse_content e parse (validation_result\<lparr>status := py ''Working'', is_working := True\<rparr>)
      else if code = 404 then
        validation_result\<lparr>status := py ''404 Not Found'',
          error_message := Some (py ''Page not found'')\<rparr>
      else if code = 403 then
        validation_result\<lparr>status := py ''403 Forbidden'',
          error_message := Some (py ''Access forbidden'')\<rparr>
      else if code = 500 then
        validation_result\<lparr>status := py ''500 Server Error'',
          error_message := Some (py ''Internal server error'')\<rparr>
      else
        validation_result\<lparr>status := py ''HTTP '' @ str_int code,
          error_message := Some (py ''HTTP status code: '' @ str_int code)\<rparr>)"

definition validate_url :: "env \<Rightarrow> pystr \<Rightarrow> int \<Rightarrow> world \<Rightarrow> validation_result \<times> world" where
  "validate_url e u timeout w =
     (let validation_result =
            \<lparr>url = u, status = py ''Unknown'', status_code = None, response_time = None,
             error_message = None, is_working = False, contains_funding_keywords = False,
             page_title = None\<rparr>;
          w = w\<lparr>validate_calls := validate_calls w @ [u]\<rparr>
      in if u = [] \<or> \<not> startswith_any [py ''http://'', py ''https://''] u then
           (validation_result\<lparr>status := py ''Invalid URL'',
              error_message := Some (py ''URL is empty or does not start with http/https'')\<rparr>,
            w)
         else
           (let outcome = http_get e (length (http_requests w)) u timeout;
                w = w\<lparr>http_requests := http_requests w @ [u]\<rparr>
            in (case outcome of
                  Response code time parse \<Rightarrow>
                    (classify_response e code parse
                       (validation_result\<lparr>response_time := Some time, status_code := Some code\<rparr>),
                     w)
                | Timeout \<Rightarrow>
                    (validation_result\<lparr>status := py ''Timeout'',
                       error_message :=
                         Some (py ''Request timed out after '' @ str_int timeout @ py '' seconds'')\<rparr>,
                     w)
                | ConnectionError \<Rightarrow>
                    (validation_result\<lparr>status := py ''Connection Error'',
                       error_message := Some (py ''Could not connect to server'')\<rparr>,
                     w)
                | RequestException msg \<Rightarrow>
                    (validation_result\<lparr>status := py ''Request Error'', error_message := Some msg\<rparr>,
                     w)
                | OtherException msg \<Rightarrow>
                    (validation_result\<lparr>status := py ''Unknown Error'', error_message := Some msg\<rparr>,
                     w))))"

text \<open>
  An environment to run the definitions on: every GET of \<open>https://example.org/\<close> answers
  200 with a page titled "Grants" whose markup does not parse, every other GET answers
  404; \<open>lower\<close> handles the ASCII letters.
\<close>

definition ascii_lower :: "pystr \<Rightarrow> pystr" where
  "ascii_lower s = map (\<lambda>c. if 65 \<le> c \<and> c \<le> 90 then c + 32 else c) s"

definition test_env :: env where
  "test_env =
     \<lparr>http_get = (\<lambda>n u t. if u = py ''https://example.org/''
                            then Response 200 1250 (ParseError (py ''bad markup''))
                            else Response 404 830 (Soup None [])),
      lower = ascii_lower,
      urlparse_netloc = (\<lambda>u. None),
      unicode_isdigit = (\<lambda>c. False),
      unicode_decimal = (\<lambda>c. None)\<rparr>"

definition world0 :: world where
  "world0 = \<lparr>validate_calls = [], http_requests = []\<rparr>"

section \<open>The URL repair engine: \<open>attempt_url_fix\<close>\<close>

record fix_attempt =
  attempt_strategy :: pystr
  attempt_url :: pystr
  attempt_status :: pystr
  attempt_working :: bool
  attempt_response_time :: "int option"
  attempt_page_title :: "pystr option"

record fix_result =
  original_url :: "pystr option"
  fix_title :: pystr
  fix_source :: pystr
  fix_attempts :: "fix_attempt list"
  final_status :: pystr
  working_url :: "pystr option"
  fix_strategy :: "pystr option"
  issues_found :: "pystr list"

text \<open>The ten rewrite strategies, in the order of the source, and their names.\<close>

definition fix_strategies :: "(pystr \<Rightarrow> pystr) list" where
  "fix_strategies =
     [\<lambda>u. if \<not> startswith_any [py ''http://'', py ''https://''] u then py ''https://'' @ u else u,
      \<lambda>u. replace (py ''www.www.'') (py ''www.'')
             (replace (py ''htpps://'') (py ''https://'')
               (replace (py ''htpp://'') (py ''http://'') u)),
      \<lambda>u. if startswith (py ''http://'') u then replace (py ''http://'') (py ''https://'') u else u,
      \<lambda>u. if startswith (py ''https://'') u then replace (py ''https://'') (py ''http://'') u else u,
      \<lambda>u. replace (py ''////'') (py ''//'') (replace (py ''///'') (py ''//'') u),
      \<lambda>u. if contains (py ''?'') u then hd (split_char (of_char CHR ''?'') u) else u,
      \<lambda>u. if contains (py ''www.'') u then replace (py ''www.'') [] u else u,
      \<lambda>u. if \<not> contains (py ''://www.'') u \<and> contains (py ''://'') u
           then replace (py ''://'') (py ''://www.'') u else u,
      \<lambda>u. if endswith (py ''/'') u then rstrip_chars (py ''/'') u else u,
      \<lambda>u. if \<not> endswith (py ''/'') u \<and> \<not> contains (py ''?'') u \<and> \<not> contains (py ''#'') u
           then u @ py ''/'' else u]"

definition strategy_names :: "pystr list" where
  "strategy_names =
     [py ''Add missing protocol'',
      py ''Fix common typos'',
      py ''Try HTTPS instead of HTTP'',
      py ''Try HTTP instead of HTTPS'',
      py ''Remove duplicate slashes'',
      py ''Remove URL parameters'',
      py ''Try without www'',
      py ''Try with www'',
      py ''Remove trailing slash'',
      py ''Add trailing slash'']"

text \<open>
  The record appended to \<open>fix_attempts\<close> for a validated candidate. The entry of the
  original URL has no \<open>response_time\<close> and no \<open>page_title\<close> key; the model writes an
  absent key as \<open>None\<close>.
\<close>

definition make_attempt :: "pystr \<Rightarrow> pystr \<Rightarrow> validation_result \<Rightarrow> fix_attempt" where
  "make_attempt name u validation =
     \<lparr>attempt_strategy = name, attempt_url = u, attempt_status = status validation,
      attempt_working = is_working validation,
      attempt_response_time = response_time validation,
      attempt_page_title = page_title validation\<rparr>"

definition already_tested :: "pystr \<Rightarrow> fix_result \<Rightarrow> bool" where
  "already_tested fixed_url fix_result =
     list_ex (\<lambda>attempt. attempt_url attempt = fixed_url) (fix_attempts fix_result)"

text \<open>
  The loop over the strategies. On a \<open>str\<close> no strategy raises and \<open>validate_url\<close>
  catches every exception, so the \<open>except\<close> branch of the loop body is never taken.
  \<open>continue\<close> and the end of the body go on with the rest of the list, \<open>break\<close> returns.
\<close>

fun try_strategies ::
  "env \<Rightarrow> pystr \<Rightarrow> ((pystr \<Rightarrow> pystr) \<times> pystr) list \<Rightarrow> fix_result \<Rightarrow> world \<Rightarrow> fix_result \<times> world"
where
  "try_strategies e original [] fix_result w = (fix_result, w)"
| "try_strategies e original ((strategy_func, strategy_name) # rest) fix_result w =
     (let fixed_url = strategy_func original
      in if fixed_url = original then try_strategies e original rest fix_result w
         else if already_tested fixed_url fix_result then try_strategies e original rest fix_result w
         else
           (let (validation, w) = validate_url e fixed_url 5 w;
                fix_result = fix_result\<lparr>fix_attempts :=
                  fix_attempts fix_result @ [make_attempt strategy_name fixed_url validation]\<rparr>
            in if is_working validation then
                 (fix_result\<lparr>final_status := py ''Fixed'', working_url := Some fixed_url,
                    fix_strategy := Some strategy_name\<rparr>, w)
               else try_strategies e original rest fix_result w))"

text \<open>
  The domain-specific candidates. When \<open>urlparse\<close> raises, the bare \<open>except\<close> leaves the
  list empty.
\<close>

definition domain_fixes :: "env \<Rightarrow> pystr \<Rightarrow> pystr list" where
  "domain_fixes e original =
     (case urlparse_netloc e original of
        None \<Rightarrow> []
      | Some netloc \<Rightarrow>
          (let domain = lower e netloc
           in if contains (py ''ec.europa.eu'') domain then
                (if contains (py ''/calls-for-proposals'') original
                 then [py ''https://ec.europa.eu/info/funding-tenders/opportunities/portal/screen/home'']
                 else [])
                @ (if contains (py ''/regional_policy'') original
                   then [py ''https://ec.europa.eu/regional_policy/funding_en'']
                   else [])
              else if contains (py ''culture.gouv.fr'') domain then
                [py ''https://www.culture.gouv.fr/Aides-demarches'',
                 py ''https://www.culture.gouv.fr/Thematiques/Soutien-a-la-creation-artistique'']
              else if contains (py ''artscouncil'') domain then
                (if contains (py ''.org.uk'') domain
                 then [py ''https://www.artscouncil.org.uk/funding'']
                 else [])
              else if contains (py ''kulturfond'') domain \<or> contains (py ''kultuur'') domain then
                [py ''https://www.nordiskkulturfond.org/en/funding'']
              else []))"

fun try_domain_fixes :: "env \<Rightarrow> pystr list \<Rightarrow> fix_result \<Rightarrow> world \<Rightarrow> fix_result \<times> world" where
  "try_domain_fixes e [] fix_result w = (fix_result, w)"
| "try_domain_fixes e (fixed_url # rest) fix_result w =
     (if \<not> already_tested fixed_url fix_result then
        (let (validation, w) = validate_url e fixed_url 5 w;
             fix_result = fix_result\<lparr>fix_attempts :=
               fix_attempts fix_result @ [make_attempt (py ''Domain-specific fix'') fixed_url validation]\<rparr>
         in if is_working validation then
              (fix_result\<lparr>final_status := py ''Fixed'', working_url := Some fixed_url,
                 fix_strategy := Some (py ''Domain-specific fix'')\<rparr>, w)
            else try_domain_fixes e rest fix_result w)
      else try_domain_fixes e rest fix_result w)"

text \<open>The diagnosis pass: each test that holds appends its note to \<open>issues_found\<close>.\<close>

definition note_if :: "bool \<Rightarrow> pystr \<Rightarrow> pystr list" where
  "note_if b issue = (if b then [issue] else [])"

definition status_seen :: "pystr \<Rightarrow> fix_result \<Rightarrow> bool" where
  "status_seen s fix_result =
     list_ex (\<lambda>attempt. attempt_status attempt = s) (fix_attempts fix_result)"

definition analyze_issues :: "pystr \<Rightarrow> fix_result \<Rightarrow> fix_result" where
  "analyze_issues original fix_result =
     fix_result\<lparr>issues_found := issues_found fix_result
       @ note_if (1 < count (py ''//'') original) (py ''Multiple slashes in URL'')
       @ note_if (\<not> startswith_any [py ''http://'', py ''https://''] original) (py ''Missing protocol'')
       @ note_if (contains (py ''www.www.'') original) (py ''Duplicate www prefix'')
       @ note_if (status_seen (py ''404 Not Found'') fix_result) (py ''Page no longer exists (404)'')
       @ note_if (status_seen (py ''Connection Error'') fix_result) (py ''Server unreachable'')
       @ note_if (status_seen (py ''Timeout'') fix_result) (py ''Server too slow to respond'')
       @ note_if (status_seen (py ''403 Forbidden'') fix_result) (py ''Access forbidden by server'')
       @ note_if (5 < length (fix_attempts fix_result)) (py ''Multiple fix strategies failed'')\<rparr>"

text \<open>
  \<open>attempt_url_fix\<close>. The argument \<open>original\<close> is \<open>None\<close> for Python's \<open>None\<close>; that and
  the empty string are the falsy values a caller can pass for a \<open>str\<close>.
\<close>

definition attempt_url_fix ::
  "env \<Rightarrow> pystr option \<Rightarrow> pystr \<Rightarrow> pystr \<Rightarrow> world \<Rightarrow> fix_result \<times> world"
where
  "attempt_url_fix e original title_arg source_arg w =
     (let fix_result =
            \<lparr>original_url = original, fix_title = title_arg, fix_source = source_arg,
             fix_attempts = [], final_status = py ''Not Fixed'', working_url = None,
             fix_strategy = None, issues_found = []\<rparr>
      in case original of
           None \<Rightarrow> (fix_result\<lparr>issues_found := issues_found fix_result @ [py ''URL is empty'']\<rparr>, w)
         | Some u \<Rightarrow>
             if u = [] then
               (fix_result\<lparr>issues_found := issues_found fix_result @ [py ''URL is empty'']\<rparr>, w)
             else
               (let (original_validation, w) = validate_url e u 5 w;
                    fix_result = fix_result\<lparr>fix_attempts := fix_attempts fix_result @
                      [\<lparr>attempt_strategy = py ''Original URL'', attempt_url = u,
                        attempt_status = status original_validation,
                        attempt_working = is_working original_validation,
                        attempt_response_time = None, attempt_page_title = None\<rparr>]\<rparr>
                in if is_working original_validation then
                     (fix_result\<lparr>final_status := py ''Already Working'', working_url := Some u\<rparr>, w)
                   else
                     (let (fix_result, w) =
                            try_strategies e u (zip fix_strategies strategy_names) fix_result w;
                          (fix_result, w) =
                            (if final_status fix_result = py ''Not Fixed''
                             then try_domain_fixes e (domain_fixes e u) fix_result w
                             else (fix_result, w))
                      in (if final_status fix_result = py ''Not Fixed''
                          then analyze_issues u fix_result else fix_result, w))))"

text \<open>
  What one of the two candidate loops has done when it returns, started on \<open>fr\<close> in
  \<open>w\<close>: it appended the attempts \<open>new\<close>, validated exactly their URLs, kept the URLs
  of the attempts distinct, and either no new attempt works and the outcome fields are
  untouched, or the last new attempt is the only one that works and the outcome is "Fixed"
  with its URL and strategy.
\<close>

definition loop_result ::
  "fix_result \<Rightarrow> world \<Rightarrow> fix_attempt list \<Rightarrow> fix_result \<Rightarrow> world \<Rightarrow> bool" where
  "loop_result fr w new fr' w' \<longleftrightarrow>
     fix_attempts fr' = fix_attempts fr @ new
   \<and> validate_calls w' = validate_calls w @ map attempt_url new
   \<and> (distinct (map attempt_url (fix_attempts fr)) \<longrightarrow> distinct (map attempt_url (fix_attempts fr')))
   \<and> ((\<forall>a\<in>set new. \<not> attempt_working a) \<and> final_status fr' = final_status fr
        \<and> working_url fr' = working_url fr \<and> fix_strategy fr' = fix_strategy fr
      \<or> (\<exists>old a. new = old @ [a] \<and> (\<forall>b\<in>set old. \<not> attempt_working b) \<and> attempt_working a
            \<and> final_status fr' = py ''Fixed'' \<and> working_url fr' = Some (attempt_url a)
            \<and> fix_strategy fr' = Some (attempt_strategy a)))"

section \<open>Opportunity records and the urgency sort\<close>

text \<open>
  The values a key of a result dict can hold, as far as the code tells them apart: a
  string, an integer, \<open>None\<close>, or any other object (a float, a list, a dict), of which
  only the truth value matters.
\<close>

datatype pyval = PyStr pystr | PyInt int | PyNone | PyOther bool

definition truthy :: "pyval \<Rightarrow> bool" where
  "truthy v = (case v of PyStr s \<Rightarrow> s \<noteq> [] | PyInt i \<Rightarrow> i \<noteq> 0 | PyNone \<Rightarrow> False | PyOther b \<Rightarrow> b)"

text \<open>
  An opportunity is a dict. The record has the keys the modelled code reads; a key that
  may be absent is an option, \<open>None\<close> for absent. The other keys live in the extension
  of the record.
\<close>

record opportunity =
  title :: pystr
  description :: pystr
  days_until_deadline :: "int option"
  amount_max :: "pyval option"

definition get_deadline_priority :: "'a opportunity_scheme \<Rightarrow> nat \<times> int" where
  "get_deadline_priority item =
     (let days_until = (case days_until_deadline item of None \<Rightarrow> 999 | Some d \<Rightarrow> d)
      in if days_until < 30 then (1, days_until)
         else if days_until < 90 then (2, days_until)
         else (3, days_until))"

text \<open>
  \<open>sorted(results, key=get_deadline_priority)\<close>: a stable sort by the key; tuples compare
  lexicographically.
\<close>

definition sort_by_deadline :: "'a opportunity_scheme list \<Rightarrow> 'a opportunity_scheme list" where
  "sort_by_deadline results = sort_key get_deadline_priority results"

text \<open>
  The words of the specification: the number of days of a record, with the sentinel 999
  for a missing deadline, and its bucket.
\<close>

definition days_or_sentinel :: "'a opportunity_scheme \<Rightarrow> int" where
  "days_or_sentinel item = (case days_until_deadline item of None \<Rightarrow> 999 | Some d \<Rightarrow> d)"

definition bucket :: "'a opportunity_scheme \<Rightarrow> nat" where
  "bucket item =
     (if days_or_sentinel item < 30 then 1 else if days_or_sentinel item < 90 then 2 else 3)"

section \<open>The aggregator: \<open>search_all\<close> and the source adapters\<close>

text \<open>
  What the adapters get from outside. \<open>aides_get keywords region limit\<close> is the GET
  request of \<open>search_subventions\<close>: it raises a \<open>RequestException\<close>, raises another
  exception, or answers with a status code and a body; reading the body
  (\<open>response.json()\<close> and the loop that normalises each entry) raises a
  \<open>RequestException\<close>, raises another exception, or yields the processed records, one for
  each entry of the answer. \<open>deadline_delta s\<close> is
  \<open>(datetime.strptime(s, '%d/%m/%Y') - datetime.now()).days\<close>, \<open>None\<close> when \<open>strptime\<close>
  raises. \<open>european_candidates keywords region limit\<close> is the list
  \<open>search_european_subventions\<close> has after \<open>search_dynamic_european_data\<close> and
  \<open>_filter_by_region\<close>, which read live data; \<open>colombian_matches keywords region\<close> is the
  catalogue of \<open>search_colombian_funding\<close> after its keyword and region filters.
\<close>

datatype french_body =
  JsonRequestError
| JsonOtherError
| JsonResults "opportunity list"

datatype french_outcome =
  FrenchRequestError
| FrenchOtherError
| FrenchResponse int french_body

record sources =
  aides_get :: "pystr \<Rightarrow> pystr \<Rightarrow> int \<Rightarrow> french_outcome"
  deadline_delta :: "pystr \<Rightarrow> int option"
  european_candidates :: "pystr \<Rightarrow> pystr \<Rightarrow> int \<Rightarrow> opportunity list"
  colombian_matches :: "pystr \<Rightarrow> pystr \<Rightarrow> opportunity list"

text \<open>\<open>xs[:n]\<close>: a negative \<open>n\<close> counts from the end.\<close>

definition slice_to :: "int \<Rightarrow> 'a list \<Rightarrow> 'a list" where
  "slice_to n xs = (if 0 \<le> n then take (nat n) xs else take (length xs - nat (- n)) xs)"

definition calculate_days_until_deadline :: "sources \<Rightarrow> pystr \<Rightarrow> int" where
  "calculate_days_until_deadline src deadline_str =
     (if deadline_str = [] then 999
      else (case deadline_delta src deadline_str of None \<Rightarrow> 999 | Some days \<Rightarrow> max 0 days))"

definition sample_data :: "sources \<Rightarrow> opportunity list" where
  "sample_data src =
     [\<lparr>title = py ''Aide '' @ [224] @ py '' l'' @ [39] @ py ''innovation num'' @ [233] @ py ''rique'',
       description = py ''Subvention destin'' @ [233] @ py ''e aux entreprises d'' @ [233]
         @ py ''veloppant des solutions num'' @ [233] @ py ''riques innovantes. Montant jusqu''
         @ [39] @ [224] @ py '' 50 000'' @ [8364] @ py '' pour financer la R&D et le d'' @ [233]
         @ py ''veloppement de prototypes.'',
       days_until_deadline = Some (calculate_days_until_deadline src (py ''31/12/2025'')),
       amount_max = Some (PyStr (py ''50000''))\<rparr>,
      \<lparr>title = py ''Fonds pour la transition '' @ [233] @ py ''cologique'',
       description = py ''Accompagnement financier pour les projets de transition '' @ [233]
         @ py ''nerg'' @ [233] @ py ''tique et environnementale. Soutien aux '' @ [233]
         @ py ''nergies renouvelables et '' @ [224] @ py '' l'' @ [39] @ py ''efficacit'' @ [233]
         @ py '' '' @ [233] @ py ''nerg'' @ [233] @ py ''tique.'',
       days_until_deadline = Some (calculate_days_until_deadline src (py ''30/11/2025'')),
       amount_max = Some (PyStr (py ''100000''))\<rparr>,
      \<lparr>title = py ''Bourse French Tech'',
       description = py ''Programme de financement pour les startups technologiques en phase d''
         @ [39] @ py ''amor'' @ [231] @ py ''age. Accompagnement personnalis'' @ [233]
         @ py '' et acc'' @ [232] @ py ''s au r'' @ [233] @ py ''seau French Tech.'',
       days_until_deadline = Some (calculate_days_until_deadline src (py ''15/10/2025'')),
       amount_max = Some (PyStr (py ''30000''))\<rparr>]"

text \<open>
  \<open>_get_sample_french_data\<close>: the three sample records, filtered by the keywords when
  there are any. It takes no limit.
\<close>

definition get_sample_french_data :: "env \<Rightarrow> sources \<Rightarrow> pystr \<Rightarrow> pystr \<Rightarrow> opportunity list" where
  "get_sample_french_data e src keywords region =
     (if keywords \<noteq> [] then
        (let keyword_list = map (\<lambda>k. lower e (strip k)) (split_char (of_char CHR '','') keywords)
         in filter (\<lambda>item.
              (let search_text = lower e (title item @ py '' '' @ description item)
               in list_ex (\<lambda>keyword. contains keyword search_text) keyword_list))
            (sample_data src))
      else sample_data src)"

text \<open>
  \<open>search_subventions\<close>. Status 401 gives the sample data and 429 the empty list;
  \<open>raise_for_status\<close> raises an \<open>HTTPError\<close>, a \<open>RequestException\<close>, on a status from 400 to
  599. The handler of \<open>RequestException\<close> returns the sample data, the handler of any other
  exception the empty list.
\<close>

definition search_subventions :: "env \<Rightarrow> sources \<Rightarrow> pystr \<Rightarrow> pystr \<Rightarrow> int \<Rightarrow> opportunity list" where
  "search_subventions e src keywords region limit =
     (case aides_get src keywords region limit of
        FrenchRequestError \<Rightarrow> get_sample_french_data e src keywords region
      | FrenchOtherError \<Rightarrow> []
      | FrenchResponse code body \<Rightarrow>
          if code = 401 then get_sample_french_data e src keywords region
          else if code = 429 then []
          else if 400 \<le> code \<and> code < 600 then get_sample_french_data e src keywords region
          else (case body of
                  JsonRequestError \<Rightarrow> get_sample_french_data e src keywords region
                | JsonOtherError \<Rightarrow> []
                | JsonResults processed_results \<Rightarrow> processed_results))"

text \<open>The loop of \<open>search_european_subventions\<close> that drops a title seen before.\<close>

fun unique_titles :: "env \<Rightarrow> pystr list \<Rightarrow> opportunity list \<Rightarrow> opportunity list" where
  "unique_titles e seen_titles [] = []"
| "unique_titles e seen_titles (result # rest) =
     (let title_lower = lower e (title result)
      in if title_lower \<notin> set seen_titles
         then result # unique_titles e (title_lower # seen_titles) rest
         else unique_titles e seen_titles rest)"

definition search_european_subventions ::
  "env \<Rightarrow> sources \<Rightarrow> pystr \<Rightarrow> pystr \<Rightarrow> int \<Rightarrow> opportunity list" where
  "search_european_subventions e src keywords region limit =
     slice_to limit (unique_titles e [] (european_candidates src keywords region limit))"

definition search_colombian_funding :: "sources \<Rightarrow> pystr \<Rightarrow> pystr \<Rightarrow> int \<Rightarrow> opportunity list" where
  "search_colombian_funding src keywords region limit =
     (let results = colombian_matches src keywords region
      in if limit \<noteq> 0 then slice_to limit results else results)"

record search_results =
  french :: "opportunity list"
  european :: "opportunity list"
  colombian :: "opportunity list"

definition search_all ::
  "env \<Rightarrow> sources \<Rightarrow> pystr \<Rightarrow> pystr \<Rightarrow> pystr \<Rightarrow> pystr \<Rightarrow> bool \<Rightarrow> bool \<Rightarrow> int \<Rightarrow> search_results" where
  "search_all e src keywords region european_region colombian_region
      include_european include_colombian limit =
     (let active_searches = 1 + (if include_european then 1 else 0)
                              + (if include_colombian then 1 else 0);
          search_limit = limit div active_searches;
          results = \<lparr>french = search_subventions e src keywords region search_limit,
                     european = [], colombian = []\<rparr>;
          results = (if include_european
                     then results\<lparr>european :=
                            search_european_subventions e src keywords european_region search_limit\<rparr>
                     else results);
          results = (if include_colombian
                     then results\<lparr>colombian :=
                            search_colombian_funding src keywords colombian_region search_limit\<rparr>
                     else results)
      in \<lparr>french = sort_by_deadline (french results),
          european = sort_by_deadline (european results),
          colombian = sort_by_deadline (colombian results)\<rparr>)"

text \<open>
  Sources to run the definitions on: the French endpoint answers 401, every deadline is
  40 days away, and the other two adapters have two candidates each.
\<close>

definition test_sources :: sources where
  "test_sources =
     \<lparr>aides_get = (\<lambda>keywords region limit. FrenchResponse 401 (JsonResults [])),
      deadline_delta = (\<lambda>s. Some 40),
      european_candidates = (\<lambda>keywords region limit.
         [\<lparr>title = py ''Creative Europe'', description = [], days_until_deadline = Some 120,
            amount_max = Some (PyStr (py ''450000''))\<rparr>,
          \<lparr>title = py ''Horizon Europe'', description = [], days_until_deadline = Some 20,
            amount_max = Some (PyStr (py ''2000000''))\<rparr>]),
      colombian_matches = (\<lambda>keywords region.
         [\<lparr>title = py ''Residencias'', description = [], days_until_deadline = Some 12,
            amount_max = None\<rparr>,
          \<lparr>title = py ''Becas'', description = [], days_until_deadline = None,
            amount_max = None\<rparr>])\<rparr>"

section \<open>The funding aggregation of \<open>create_analysis_log\<close>\<close>

text \<open>
  \<open>s.isdigit()\<close>: \<open>s\<close> is not empty and every character is a digit. For ASCII these are
  "0" to "9"; beyond ASCII the environment says. \<open>float(s)\<close>, called on a string that
  passed \<open>isdigit\<close>, reads every decimal digit, of ASCII or not, and raises \<open>ValueError\<close>
  on a digit that is not decimal, such as a superscript two. The value of a string of
  decimal digits is the integer it writes; the model keeps that integer for the float
  (they agree below \<open>2^53\<close>).
\<close>

definition isdigit_char :: "env \<Rightarrow> nat \<Rightarrow> bool" where
  "isdigit_char e c = (if c < 128 then 48 \<le> c \<and> c \<le> 57 else unicode_isdigit e c)"

definition isdigit :: "env \<Rightarrow> pystr \<Rightarrow> bool" where
  "isdigit e s = (s \<noteq> [] \<and> list_all (isdigit_char e) s)"

definition decimal_value :: "env \<Rightarrow> nat \<Rightarrow> nat option" where
  "decimal_value e c =
     (if c < 128 then (if 48 \<le> c \<and> c \<le> 57 then Some (c - 48) else None)
      else unicode_decimal e c)"

fun float_digits :: "env \<Rightarrow> nat \<Rightarrow> pystr \<Rightarrow> nat option" where
  "float_digits e acc [] = Some acc"
| "float_digits e acc (c # cs) =
     (case decimal_value e c of
        None \<Rightarrow> None
      | Some d \<Rightarrow> float_digits e (10 * acc + d) cs)"

definition euro :: pystr where
  "euro = [8364]"

text \<open>
  One round of the loop over \<open>all_results\<close>: the number appended to \<open>amounts\<close>, or \<open>None\<close>
  when nothing is appended. A truthy value that is not a string has no \<open>isdigit\<close>; the
  \<open>AttributeError\<close>, like the \<open>ValueError\<close> of \<open>float\<close>, is caught and the loop goes on.
\<close>

definition clean_amount :: "pystr \<Rightarrow> pystr" where
  "clean_amount s = strip (replace (py ''EUR'') [] (replace euro [] (replace (py '','') [] s)))"

definition parse_amount :: "env \<Rightarrow> 'a opportunity_scheme \<Rightarrow> nat option" where
  "parse_amount e result =
     (let raw = (case amount_max result of None \<Rightarrow> PyStr (py ''0'') | Some v \<Rightarrow> v);
          cleaned = (case raw of PyStr s \<Rightarrow> PyStr (clean_amount s) | _ \<Rightarrow> raw)
      in if truthy cleaned then
           (case cleaned of
              PyStr s \<Rightarrow> if isdigit e s then float_digits e 0 s else None
            | _ \<Rightarrow> None)
         else None)"

definition amounts :: "env \<Rightarrow> 'a opportunity_scheme list \<Rightarrow> nat list" where
  "amounts e all_results = List.map_filter (parse_amount e) all_results"

definition total_funding :: "nat list \<Rightarrow> nat" where
  "total_funding ams = (if ams \<noteq> [] then sum_list ams else 0)"

definition avg_funding :: "nat list \<Rightarrow> real" where
  "avg_funding ams = (if ams \<noteq> [] then real (total_funding ams) / real (length ams) else 0)"

definition max_funding :: "nat list \<Rightarrow> nat" where
  "max_funding ams = (if ams \<noteq> [] then fold max ams (hd ams) else 0)"

definition min_funding :: "nat list \<Rightarrow> nat" where
  "min_funding ams = (if ams \<noteq> [] then fold min ams (hd ams) else 0)"

text \<open>
  The words of the specification: a plain non-negative integer is a non-empty string of
  decimal digits.
\<close>

definition plain_integer :: "env \<Rightarrow> pystr \<Rightarrow> bool" where
  "plain_integer e s =
     (s \<noteq> [] \<and> list_all (\<lambda>c. isdigit_char e c \<and> decimal_value e c \<noteq> None) s)"

text \<open>
  Three result records to run the definitions on: one without deadline and without
  \<open>amount_max\<close>, one due in 90 days with "50,000", one due in 20 days with "N/A".
\<close>

definition test_results :: "opportunity list" where
  "test_results =
     [\<lparr>title = py ''Becas'', description = [], days_until_deadline = None, amount_max = None\<rparr>,
      \<lparr>title = py ''Creative Europe'', description = [], days_until_deadline = Some 90,
        amount_max = Some (PyStr (py ''50,000''))\<rparr>,
      \<lparr>title = py ''Horizon Europe'', description = [], days_until_deadline = Some 20,
        amount_max = Some (PyStr (py ''N/A''))\<rparr>]"

section \<open>Properties of \<open>validate_url\<close>\<close>

text \<open>
  C1. For every url that is empty or starts with neither "http://" nor "https://",
  \<open>validate_url\<close> returns a result with \<open>is_working\<close> false and status "Invalid URL", and
  sends no HTTP request: the trace of requests is the one it started from.
\<close>

theorem validate_url_invalid:
  assumes "u = [] \<or> \<not> (startswith (py ''http://'') u \<or> startswith (py ''https://'') u)"
  shows "is_working (fst (validate_url e u timeout w)) = False
       \<and> status (fst (validate_url e u timeout w)) = py ''Invalid URL''
       \<and> http_requests (snd (validate_url e u timeout w)) = http_requests w"
  using assms by (auto simp: validate_url_def startswith_any_def Let_def)

theorem validate_url_invalid_witness:
  "(py ''ftp://old.example'' = []
      \<or> \<not> (startswith (py ''http://'') (py ''ftp://old.example'')
           \<or> startswith (py ''https://'') (py ''ftp://old.example'')))
   \<and> is_working (fst (validate_url test_env (py ''ftp://old.example'') 10 world0)) = False
   \<and> status (fst (validate_url test_env (py ''ftp://old.example'') 10 world0)) = py ''Invalid URL''
   \<and> http_requests (snd (validate_url test_env (py ''ftp://old.example'') 10 world0)) = []"
proof -
  have h: "py ''ftp://old.example'' = []
      \<or> \<not> (startswith (py ''http://'') (py ''ftp://old.example'')
           \<or> startswith (py ''https://'') (py ''ftp://old.example''))"
    by (simp add: py_def startswith_def)
  show ?thesis
    using h validate_url_invalid [OF h, of test_env 10 world0] by (simp add: world0_def)
qed



section \<open>Properties of \<open>attempt_url_fix\<close>\<close>

lemma validate_url_calls:
  "validate_url e u t w = (v, w') \<Longrightarrow> validate_calls w' = validate_calls w @ [u]"
  by (auto simp: validate_url_def Let_def split: http_outcome.splits if_splits)

lemma make_attempt_simps [simp]:
  "attempt_url (make_attempt n u v) = u"
  "attempt_strategy (make_attempt n u v) = n"
  "attempt_working (make_attempt n u v) = is_working v"
  by (simp_all add: make_attempt_def)

lemma already_tested_iff:
  "already_tested x fr \<longleftrightarrow> x \<in> set (map attempt_url (fix_attempts fr))"
  by (auto simp: already_tested_def list_ex_iff)

lemma loop_result_nil: "loop_result fr w [] fr w"
  by (simp add: loop_result_def)

lemma loop_result_stop:
  assumes "validate_url e x 5 w = (v, w1)" "is_working v" "\<not> already_tested x fr"
  shows "loop_result fr w [make_attempt n x v]
           (fr\<lparr>fix_attempts := fix_attempts fr @ [make_attempt n x v],
               final_status := py ''Fixed'', working_url := Some x, fix_strategy := Some n\<rparr>) w1"
  using assms validate_url_calls [OF assms(1)]
  by (simp add: loop_result_def already_tested_iff)

lemma loop_result_step:
  assumes "validate_url e x 5 w = (v, w1)" "\<not> is_working v" "\<not> already_tested x fr"
    and "loop_result (fr\<lparr>fix_attempts := fix_attempts fr @ [make_attempt n x v]\<rparr>) w1 new fr' w'"
  shows "loop_result fr w (make_attempt n x v # new) fr' w'"
proof -
  let ?m = "make_attempt n x v"
  let ?fr = "fr\<lparr>fix_attempts := fix_attempts fr @ [?m]\<rparr>"
  note c = validate_url_calls [OF assms(1)]
  from assms(4) [unfolded loop_result_def] have a: "fix_attempts fr' = fix_attempts ?fr @ new"
    and b: "validate_calls w' = validate_calls w1 @ map attempt_url new"
    and d: "distinct (map attempt_url (fix_attempts ?fr)) \<longrightarrow> distinct (map attempt_url (fix_attempts fr'))"
    and o: "(\<forall>a\<in>set new. \<not> attempt_working a) \<and> final_status fr' = final_status ?fr
        \<and> working_url fr' = working_url ?fr \<and> fix_strategy fr' = fix_strategy ?fr
      \<or> (\<exists>old a. new = old @ [a] \<and> (\<forall>b\<in>set old. \<not> attempt_working b) \<and> attempt_working a
            \<and> final_status fr' = py ''Fixed'' \<and> working_url fr' = Some (attempt_url a)
            \<and> fix_strategy fr' = Some (attempt_strategy a))"
    by blast+
  have 1: "fix_attempts fr' = fix_attempts fr @ (?m # new)" using a by simp
  have 2: "validate_calls w' = validate_calls w @ map attempt_url (?m # new)" using b c by simp
  have 3: "distinct (map attempt_url (fix_attempts fr)) \<longrightarrow> distinct (map attempt_url (fix_attempts fr'))"
    using d assms(3) by (simp add: already_tested_iff)
  from o have 4: "(\<forall>a\<in>set (?m # new). \<not> attempt_working a) \<and> final_status fr' = final_status fr
        \<and> working_url fr' = working_url fr \<and> fix_strategy fr' = fix_strategy fr
      \<or> (\<exists>old a. ?m # new = old @ [a] \<and> (\<forall>b\<in>set old. \<not> attempt_working b) \<and> attempt_working a
            \<and> final_status fr' = py ''Fixed'' \<and> working_url fr' = Some (attempt_url a)
            \<and> fix_strategy fr' = Some (attempt_strategy a))"
  proof
    assume "(\<forall>a\<in>set new. \<not> attempt_working a) \<and> final_status fr' = final_status ?fr
        \<and> working_url fr' = working_url ?fr \<and> fix_strategy fr' = fix_strategy ?fr"
    then show ?thesis using assms(2) by simp
  next
    assume "\<exists>old a. new = old @ [a] \<and> (\<forall>b\<in>set old. \<not> attempt_working b) \<and> attempt_working a
            \<and> final_status fr' = py ''Fixed'' \<and> working_url fr' = Some (attempt_url a)
            \<and> fix_strategy fr' = Some (attempt_strategy a)"
    then obtain old a where oa: "new = old @ [a]" "\<forall>b\<in>set old. \<not> attempt_working b" "attempt_working a"
       "final_status fr' = py ''Fixed''" "working_url fr' = Some (attempt_url a)"
       "fix_strategy fr' = Some (attempt_strategy a)" by blast
    have "?m # new = (?m # old) @ [a] \<and> (\<forall>b\<in>set (?m # old). \<not> attempt_working b)"
      using oa assms(2) by simp
    with oa show ?thesis by blast
  qed
  show ?thesis unfolding loop_result_def using 1 2 3 4 by blast
qed

lemma try_strategies_result:
  "try_strategies e u fs fr w = (fr', w') \<Longrightarrow>
     \<exists>new. loop_result fr w new fr' w'
        \<and> (\<forall>a\<in>set new. \<exists>p\<in>set fs. attempt_strategy a = snd p \<and> attempt_url a = fst p u)"
proof (induction e u fs fr w rule: try_strategies.induct)
  case (1 e original fix_result w)
  then show ?case using loop_result_nil by auto
next
  case (2 e original strategy_func strategy_name rest fix_result w)
  let ?x = "strategy_func original"
  show ?case
  proof (cases "?x = original")
    case True
    with 2(1) [OF refl True] 2(4) show ?thesis by (fastforce simp: Let_def)
  next
    case ne: False
    show ?thesis
    proof (cases "already_tested ?x fix_result")
      case True
      with 2(2) [OF refl ne True] 2(4) ne show ?thesis by (fastforce simp: Let_def)
    next
      case nt: False
      obtain v w1 where v: "validate_url e ?x 5 w = (v, w1)"
        by (cases "validate_url e ?x 5 w")
      let ?m = "make_attempt strategy_name ?x v"
      let ?fr = "fix_result\<lparr>fix_attempts := fix_attempts fix_result @ [?m]\<rparr>"
      show ?thesis
      proof (cases "is_working v")
        case True
        with ne nt v 2(4) have "fr' = ?fr\<lparr>final_status := py ''Fixed'', working_url := Some ?x,
                    fix_strategy := Some strategy_name\<rparr>" and "w' = w1"
          by (simp_all add: Let_def)
        with loop_result_stop [OF v True nt, of strategy_name]
        have "loop_result fix_result w [?m] fr' w'" by simp
        then show ?thesis by (intro exI [of _ "[?m]"]) simp
      next
        case nw: False
        from ne nt v nw 2(4) have eq: "try_strategies e original rest ?fr w1 = (fr', w')"
          by (simp add: Let_def)
        from 2(3) [OF refl ne nt refl v [symmetric] refl nw eq]
        obtain new where n: "loop_result ?fr w1 new fr' w'"
          "\<forall>a\<in>set new. \<exists>p\<in>set rest. attempt_strategy a = snd p \<and> attempt_url a = fst p original"
          by blast
        from loop_result_step [OF v nw nt n(1)] n(2)
        show ?thesis by (intro exI [of _ "?m # new"]) auto
      qed
    qed
  qed
qed

lemma try_domain_fixes_result:
  "try_domain_fixes e cands fr w = (fr', w') \<Longrightarrow>
     \<exists>new. loop_result fr w new fr' w'
        \<and> (\<forall>a\<in>set new. attempt_strategy a = py ''Domain-specific fix'' \<and> attempt_url a \<in> set cands)"
proof (induction e cands fr w rule: try_domain_fixes.induct)
  case (1 e fix_result w)
  then show ?case using loop_result_nil by auto
next
  case (2 e fixed_url rest fix_result w)
  show ?case
  proof (cases "already_tested fixed_url fix_result")
    case True
    with 2(2) 2(3) show ?thesis by fastforce
  next
    case nt: False
    obtain v w1 where v: "validate_url e fixed_url 5 w = (v, w1)"
      by (cases "validate_url e fixed_url 5 w")
    let ?m = "make_attempt (py ''Domain-specific fix'') fixed_url v"
    let ?fr = "fix_result\<lparr>fix_attempts := fix_attempts fix_result @ [?m]\<rparr>"
    show ?thesis
    proof (cases "is_working v")
      case True
      with nt v 2(3) have "fr' = ?fr\<lparr>final_status := py ''Fixed'', working_url := Some fixed_url,
                  fix_strategy := Some (py ''Domain-specific fix'')\<rparr>" and "w' = w1"
        by (simp_all add: Let_def)
      with loop_result_stop [OF v True nt, of "py ''Domain-specific fix''"]
      have "loop_result fix_result w [?m] fr' w'" by simp
      then show ?thesis by (intro exI [of _ "[?m]"]) simp
    next
      case nw: False
      from nt v nw 2(3) have eq: "try_domain_fixes e rest ?fr w1 = (fr', w')"
        by (simp add: Let_def)
      from 2(1) [OF nt refl v [symmetric] refl nw eq]
      obtain new where n: "loop_result ?fr w1 new fr' w'"
        "\<forall>a\<in>set new. attempt_strategy a = py ''Domain-specific fix'' \<and> attempt_url a \<in> set rest"
        by blast
      from loop_result_step [OF v nw nt n(1)] n(2)
      show ?thesis by (intro exI [of _ "?m # new"]) auto
    qed
  qed
qed

lemma py_Fixed_neq [simp]: "py ''Fixed'' \<noteq> py ''Not Fixed''" "py ''Not Fixed'' \<noteq> py ''Fixed''"
  "py ''Already Working'' \<noteq> py ''Not Fixed''" "py ''Already Working'' \<noteq> py ''Fixed''"
  "py ''Not Fixed'' \<noteq> py ''Already Working''" "py ''Fixed'' \<noteq> py ''Already Working''"
  by (simp_all add: py_def)

lemma loop_result_not_fixed:
  assumes "loop_result fr w new fr' w'" "final_status fr' = py ''Not Fixed''"
  shows "(\<forall>a\<in>set new. \<not> attempt_working a) \<and> final_status fr' = final_status fr
        \<and> working_url fr' = working_url fr \<and> fix_strategy fr' = fix_strategy fr"
  using assms unfolding loop_result_def by auto

lemma loop_result_trans:
  assumes "loop_result fr w n1 fr1 w1" "\<forall>a\<in>set n1. \<not> attempt_working a"
    "final_status fr1 = final_status fr" "working_url fr1 = working_url fr"
    "fix_strategy fr1 = fix_strategy fr" "loop_result fr1 w1 n2 fr2 w2"
  shows "loop_result fr w (n1 @ n2) fr2 w2"
proof -
  from assms(6) [unfolded loop_result_def]
  have o: "(\<forall>a\<in>set n2. \<not> attempt_working a) \<and> final_status fr2 = final_status fr1
        \<and> working_url fr2 = working_url fr1 \<and> fix_strategy fr2 = fix_strategy fr1
      \<or> (\<exists>old a. n2 = old @ [a] \<and> (\<forall>b\<in>set old. \<not> attempt_working b) \<and> attempt_working a
            \<and> final_status fr2 = py ''Fixed'' \<and> working_url fr2 = Some (attempt_url a)
            \<and> fix_strategy fr2 = Some (attempt_strategy a))" by blast
  from o have 4: "(\<forall>a\<in>set (n1 @ n2). \<not> attempt_working a) \<and> final_status fr2 = final_status fr
        \<and> working_url fr2 = working_url fr \<and> fix_strategy fr2 = fix_strategy fr
      \<or> (\<exists>old a. n1 @ n2 = old @ [a] \<and> (\<forall>b\<in>set old. \<not> attempt_working b) \<and> attempt_working a
            \<and> final_status fr2 = py ''Fixed'' \<and> working_url fr2 = Some (attempt_url a)
            \<and> fix_strategy fr2 = Some (attempt_strategy a))"
  proof
    assume "(\<forall>a\<in>set n2. \<not> attempt_working a) \<and> final_status fr2 = final_status fr1
        \<and> working_url fr2 = working_url fr1 \<and> fix_strategy fr2 = fix_strategy fr1"
    then show ?thesis using assms(2-5) by auto
  next
    assume "\<exists>old a. n2 = old @ [a] \<and> (\<forall>b\<in>set old. \<not> attempt_working b) \<and> attempt_working a
            \<and> final_status fr2 = py ''Fixed'' \<and> working_url fr2 = Some (attempt_url a)
            \<and> fix_strategy fr2 = Some (attempt_strategy a)"
    then obtain old a where oa: "n2 = old @ [a]" "\<forall>b\<in>set old. \<not> attempt_working b" "attempt_working a"
       "final_status fr2 = py ''Fixed''" "working_url fr2 = Some (attempt_url a)"
       "fix_strategy fr2 = Some (attempt_strategy a)" by blast
    have "n1 @ n2 = (n1 @ old) @ [a] \<and> (\<forall>b\<in>set (n1 @ old). \<not> attempt_working b)"
      using oa assms(2) by auto
    with oa show ?thesis by blast
  qed
  from assms(1) [unfolded loop_result_def]
  have a1: "fix_attempts fr1 = fix_attempts fr @ n1"
    and b1: "validate_calls w1 = validate_calls w @ map attempt_url n1"
    and c1: "distinct (map attempt_url (fix_attempts fr)) \<longrightarrow> distinct (map attempt_url (fix_attempts fr1))"
    by blast+
  from assms(6) [unfolded loop_result_def]
  have a2: "fix_attempts fr2 = fix_attempts fr1 @ n2"
    and b2: "validate_calls w2 = validate_calls w1 @ map attempt_url n2"
    and c2: "distinct (map attempt_url (fix_attempts fr1)) \<longrightarrow> distinct (map attempt_url (fix_attempts fr2))"
    by blast+
  have 1: "fix_attempts fr2 = fix_attempts fr @ (n1 @ n2)" by (simp add: a1 a2)
  have 2: "validate_calls w2 = validate_calls w @ map attempt_url (n1 @ n2)" by (simp add: b1 b2)
  have 3: "distinct (map attempt_url (fix_attempts fr)) \<longrightarrow> distinct (map attempt_url (fix_attempts fr2))"
    using c1 c2 by blast
  show ?thesis unfolding loop_result_def using 1 2 3 4 by blast
qed

lemma analyze_issues_fields [simp]:
  "fix_attempts (analyze_issues u fr) = fix_attempts fr"
  "final_status (analyze_issues u fr) = final_status fr"
  "working_url (analyze_issues u fr) = working_url fr"
  "fix_strategy (analyze_issues u fr) = fix_strategy fr"
  by (simp_all add: analyze_issues_def)

text \<open>The run on a non-empty original URL whose validation does not report working.\<close>

lemma attempt_url_fix_broken:
  assumes "u \<noteq> []" and v: "validate_url e u 5 w = (v, w1)" and nw: "\<not> is_working v"
    and run: "attempt_url_fix e (Some u) t s w = (r, w')"
  shows "\<exists>first new. fix_attempts r = first # new \<and> attempt_url first = u \<and> \<not> attempt_working first
      \<and> validate_calls w' = validate_calls w @ map attempt_url (first # new)
      \<and> distinct (map attempt_url (first # new))
      \<and> (\<forall>a\<in>set new.
            (\<exists>p\<in>set (zip fix_strategies strategy_names). attempt_strategy a = snd p \<and> attempt_url a = fst p u)
          \<or> attempt_strategy a = py ''Domain-specific fix'' \<and> attempt_url a \<in> set (domain_fixes e u))
      \<and> ((\<forall>a\<in>set new. \<not> attempt_working a) \<and> final_status r = py ''Not Fixed''
            \<and> working_url r = None \<and> fix_strategy r = None
          \<or> (\<exists>old a. new = old @ [a] \<and> (\<forall>b\<in>set old. \<not> attempt_working b) \<and> attempt_working a
                \<and> final_status r = py ''Fixed'' \<and> working_url r = Some (attempt_url a)
                \<and> fix_strategy r = Some (attempt_strategy a)))"
proof -
  let ?first = "\<lparr>attempt_strategy = py ''Original URL'', attempt_url = u,
                  attempt_status = status v, attempt_working = is_working v,
                  attempt_response_time = None, attempt_page_title = None\<rparr>"
  let ?fr0 = "\<lparr>original_url = Some u, fix_title = t, fix_source = s,
             fix_attempts = [?first], final_status = py ''Not Fixed'', working_url = None,
             fix_strategy = None, issues_found = []\<rparr>"
  obtain fr1 w2 where l1: "try_strategies e u (zip fix_strategies strategy_names) ?fr0 w1 = (fr1, w2)"
    by (cases "try_strategies e u (zip fix_strategies strategy_names) ?fr0 w1")
  obtain fr2 w3 where l2: "(if final_status fr1 = py ''Not Fixed''
                             then try_domain_fixes e (domain_fixes e u) fr1 w2
                             else (fr1, w2)) = (fr2, w3)"
    by (cases "if final_status fr1 = py ''Not Fixed''
                             then try_domain_fixes e (domain_fixes e u) fr1 w2
                             else (fr1, w2)")
  from run assms(1) v nw l1 l2
  have r: "r = (if final_status fr2 = py ''Not Fixed'' then analyze_issues u fr2 else fr2)" and w': "w' = w3"
    by (simp_all add: attempt_url_fix_def Let_def)
  from try_strategies_result [OF l1] obtain n1 where
    n1: "loop_result ?fr0 w1 n1 fr1 w2"
    "\<forall>a\<in>set n1. \<exists>p\<in>set (zip fix_strategies strategy_names). attempt_strategy a = snd p \<and> attempt_url a = fst p u"
    by blast
  have "\<exists>new. loop_result ?fr0 w1 new fr2 w3 \<and> (\<forall>a\<in>set new.
            (\<exists>p\<in>set (zip fix_strategies strategy_names). attempt_strategy a = snd p \<and> attempt_url a = fst p u)
          \<or> attempt_strategy a = py ''Domain-specific fix'' \<and> attempt_url a \<in> set (domain_fixes e u))"
  proof (cases "final_status fr1 = py ''Not Fixed''")
    case True
    with l2 have d: "try_domain_fixes e (domain_fixes e u) fr1 w2 = (fr2, w3)" by simp
    from try_domain_fixes_result [OF d] obtain n2 where
      n2: "loop_result fr1 w2 n2 fr2 w3"
      "\<forall>a\<in>set n2. attempt_strategy a = py ''Domain-specific fix'' \<and> attempt_url a \<in> set (domain_fixes e u)"
      by blast
    from loop_result_not_fixed [OF n1(1) True]
    have "loop_result ?fr0 w1 (n1 @ n2) fr2 w3"
      by (intro loop_result_trans [OF n1(1) _ _ _ _ n2(1)]) simp_all
    with n1(2) n2(2) show ?thesis by (intro exI [of _ "n1 @ n2"]) auto
  next
    case False
    with l2 have "fr2 = fr1" "w3 = w2" by simp_all
    with n1 show ?thesis by (intro exI [of _ n1]) auto
  qed
  then obtain new where new: "loop_result ?fr0 w1 new fr2 w3"
    "\<forall>a\<in>set new.
            (\<exists>p\<in>set (zip fix_strategies strategy_names). attempt_strategy a = snd p \<and> attempt_url a = fst p u)
          \<or> attempt_strategy a = py ''Domain-specific fix'' \<and> attempt_url a \<in> set (domain_fixes e u)"
    by blast
  from new(1) [unfolded loop_result_def] have
    a0: "fix_attempts fr2 = fix_attempts ?fr0 @ new"
    and b: "validate_calls w3 = validate_calls w1 @ map attempt_url new"
    and c0: "distinct (map attempt_url (fix_attempts ?fr0)) \<longrightarrow> distinct (map attempt_url (fix_attempts fr2))"
    and d0: "(\<forall>a\<in>set new. \<not> attempt_working a) \<and> final_status fr2 = final_status ?fr0
        \<and> working_url fr2 = working_url ?fr0 \<and> fix_strategy fr2 = fix_strategy ?fr0
      \<or> (\<exists>old a. new = old @ [a] \<and> (\<forall>b\<in>set old. \<not> attempt_working b) \<and> attempt_working a
            \<and> final_status fr2 = py ''Fixed'' \<and> working_url fr2 = Some (attempt_url a)
            \<and> fix_strategy fr2 = Some (attempt_strategy a))"
    by blast+
  from a0 have a: "fix_attempts fr2 = [?first] @ new" by simp
  from c0 have c: "distinct (map attempt_url (fix_attempts fr2))" by simp
  from d0 have d: "(\<forall>a\<in>set new. \<not> attempt_working a) \<and> final_status fr2 = py ''Not Fixed''
        \<and> working_url fr2 = None \<and> fix_strategy fr2 = None
      \<or> (\<exists>old a. new = old @ [a] \<and> (\<forall>b\<in>set old. \<not> attempt_working b) \<and> attempt_working a
            \<and> final_status fr2 = py ''Fixed'' \<and> working_url fr2 = Some (attempt_url a)
            \<and> fix_strategy fr2 = Some (attempt_strategy a))"
    by simp
  have fields: "fix_attempts r = fix_attempts fr2" "final_status r = final_status fr2"
    "working_url r = working_url fr2" "fix_strategy r = fix_strategy fr2"
    using r by simp_all
  have 1: "fix_attempts r = ?first # new" using a fields by simp
  have 2: "validate_calls w' = validate_calls w @ map attempt_url (?first # new)"
    using b w' validate_url_calls [OF v] by simp
  have 3: "distinct (map attempt_url (?first # new))" using c a by simp
  show ?thesis
    apply (rule exI [of _ ?first], rule exI [of _ new])
    using 1 2 3 new(2) d nw unfolding fields by simp
qed

text \<open>The test environment, evaluated.\<close>

lemma test_env_not_found:
  "\<not> is_working (fst (validate_url test_env (py ''http://example.org/'') 5 world0))"
  by (simp add: validate_url_def test_env_def world0_def py_def startswith_any_def startswith_def
        classify_response_def Let_def)

lemma test_env_found:
  "is_working (fst (validate_url test_env (py ''https://example.org/'') 5 world0))"
  by (simp add: validate_url_def test_env_def world0_def py_def startswith_any_def startswith_def
        classify_response_def parse_content_def Let_def)

lemma test_env_repair:
  "attempt_url_fix test_env (Some (py ''http://example.org/'')) [] [] world0 =
     (\<lparr>original_url = Some (py ''http://example.org/''), fix_title = [], fix_source = [],
       fix_attempts =
         [\<lparr>attempt_strategy = py ''Original URL'', attempt_url = py ''http://example.org/'',
            attempt_status = py ''404 Not Found'', attempt_working = False,
            attempt_response_time = None, attempt_page_title = None\<rparr>,
          \<lparr>attempt_strategy = py ''Try HTTPS instead of HTTP'',
            attempt_url = py ''https://example.org/'',
            attempt_status = py ''Working'', attempt_working = True,
            attempt_response_time = Some 1250, attempt_page_title = None\<rparr>],
       final_status = py ''Fixed'', working_url = Some (py ''https://example.org/''),
       fix_strategy = Some (py ''Try HTTPS instead of HTTP''), issues_found = []\<rparr>,
      \<lparr>validate_calls = [py ''http://example.org/'', py ''https://example.org/''],
       http_requests = [py ''http://example.org/'', py ''https://example.org/'']\<rparr>)"
  by (simp add: attempt_url_fix_def fix_strategies_def strategy_names_def
        validate_url_def test_env_def world0_def py_def startswith_any_def startswith_def
        classify_response_def parse_content_def Let_def replace_def already_tested_def
        make_attempt_def)

lemma last_conv: "xs = ys @ [a] \<Longrightarrow> i < length xs \<Longrightarrow> i \<noteq> length ys \<Longrightarrow> xs ! i \<in> set ys"
  by (metis length_append_singleton less_Suc_eq nth_append nth_mem)

text \<open>
  C2. For every original URL whose initial validation reports not working,
  \<open>attempt_url_fix\<close> validates each candidate at most once: the URLs \<open>validate_url\<close> was
  called with during the run are exactly the URLs of \<open>fix_attempts\<close>, in order, and no
  two of them are equal. The candidate loops, over the ten strategies and over the
  domain-specific fixes, stop at the first candidate whose validation reports working:
  an attempt that works is the last one, and then \<open>final_status\<close> is "Fixed" and
  \<open>working_url\<close> is its URL.
\<close>

theorem attempt_url_fix_validates_once:
  fixes e u t s w
  defines "r \<equiv> fst (attempt_url_fix e (Some u) t s w)"
    and "w' \<equiv> snd (attempt_url_fix e (Some u) t s w)"
  assumes broken: "\<not> is_working (fst (validate_url e u 5 w))"
  shows "validate_calls w' = validate_calls w @ map attempt_url (fix_attempts r)
       \<and> distinct (map attempt_url (fix_attempts r))
       \<and> (\<forall>i<length (fix_attempts r). attempt_working (fix_attempts r ! i) \<longrightarrow>
            Suc i = length (fix_attempts r) \<and> final_status r = py ''Fixed''
            \<and> working_url r = Some (attempt_url (fix_attempts r ! i)))"
proof (cases "u = []")
  case True
  then show ?thesis by (simp add: r_def w'_def attempt_url_fix_def)
next
  case False
  obtain v w1 where v: "validate_url e u 5 w = (v, w1)" by (cases "validate_url e u 5 w")
  with broken have nw: "\<not> is_working v" by simp
  have run: "attempt_url_fix e (Some u) t s w = (r, w')" by (simp add: r_def w'_def)
  from attempt_url_fix_broken [OF False v nw run] obtain first new where
    f: "fix_attempts r = first # new" "attempt_url first = u" "\<not> attempt_working first"
      "validate_calls w' = validate_calls w @ map attempt_url (first # new)"
      "distinct (map attempt_url (first # new))"
    and o: "(\<forall>a\<in>set new. \<not> attempt_working a) \<and> final_status r = py ''Not Fixed''
            \<and> working_url r = None \<and> fix_strategy r = None
          \<or> (\<exists>old a. new = old @ [a] \<and> (\<forall>b\<in>set old. \<not> attempt_working b) \<and> attempt_working a
                \<and> final_status r = py ''Fixed'' \<and> working_url r = Some (attempt_url a)
                \<and> fix_strategy r = Some (attempt_strategy a))"
    by blast
  have stop: "\<forall>i<length (fix_attempts r). attempt_working (fix_attempts r ! i) \<longrightarrow>
            Suc i = length (fix_attempts r) \<and> final_status r = py ''Fixed''
            \<and> working_url r = Some (attempt_url (fix_attempts r ! i))"
  proof (intro allI impI)
    fix i assume i: "i < length (fix_attempts r)" and wk: "attempt_working (fix_attempts r ! i)"
    from o show "Suc i = length (fix_attempts r) \<and> final_status r = py ''Fixed''
            \<and> working_url r = Some (attempt_url (fix_attempts r ! i))"
    proof
      assume "(\<forall>a\<in>set new. \<not> attempt_working a) \<and> final_status r = py ''Not Fixed''
            \<and> working_url r = None \<and> fix_strategy r = None"
      then have "\<forall>a\<in>set (fix_attempts r). \<not> attempt_working a" using f by simp
      with i wk show ?thesis using nth_mem by blast
    next
      assume "\<exists>old a. new = old @ [a] \<and> (\<forall>b\<in>set old. \<not> attempt_working b) \<and> attempt_working a
                \<and> final_status r = py ''Fixed'' \<and> working_url r = Some (attempt_url a)
                \<and> fix_strategy r = Some (attempt_strategy a)"
      then obtain old a where oa: "new = old @ [a]" "\<forall>b\<in>set old. \<not> attempt_working b"
        "final_status r = py ''Fixed''" "working_url r = Some (attempt_url a)" by blast
      have eq: "fix_attempts r = (first # old) @ [a]" using f oa by simp
      have nb: "\<forall>b\<in>set (first # old). \<not> attempt_working b" using f oa by simp
      have "i = length (first # old)"
      proof (rule ccontr)
        assume "i \<noteq> length (first # old)"
        from last_conv [OF eq i this] nb wk show False by blast
      qed
      with eq oa show ?thesis by simp
    qed
  qed
  from f stop show ?thesis by simp
qed

theorem attempt_url_fix_validates_once_witness:
  "\<not> is_working (fst (validate_url test_env (py ''http://example.org/'') 5 world0))
   \<and> validate_calls (snd (attempt_url_fix test_env (Some (py ''http://example.org/'')) [] [] world0))
       = [py ''http://example.org/'', py ''https://example.org/'']
   \<and> distinct (map attempt_url (fix_attempts
         (fst (attempt_url_fix test_env (Some (py ''http://example.org/'')) [] [] world0))))
   \<and> attempt_working (fix_attempts
         (fst (attempt_url_fix test_env (Some (py ''http://example.org/'')) [] [] world0)) ! 1)
   \<and> length (fix_attempts
         (fst (attempt_url_fix test_env (Some (py ''http://example.org/'')) [] [] world0))) = 2
   \<and> final_status (fst (attempt_url_fix test_env (Some (py ''http://example.org/'')) [] [] world0))
       = py ''Fixed''"
  using test_env_not_found
    attempt_url_fix_validates_once [OF test_env_not_found, of "[]" "[]"]
  by (simp add: test_env_repair)

lemma validate_url_empty_not_working: "\<not> is_working (fst (validate_url e [] t w))"
  by (simp add: validate_url_def Let_def)

text \<open>
  C6. For every original URL whose initial validation reports working, \<open>attempt_url_fix\<close>
  returns with \<open>final_status\<close> "Already Working" and \<open>working_url\<close> the original URL,
  after exactly one call of \<open>validate_url\<close>: \<open>fix_attempts\<close> has one entry, the original
  URL.
\<close>

theorem attempt_url_fix_already_working:
  fixes e u t s w
  defines "r \<equiv> fst (attempt_url_fix e (Some u) t s w)"
    and "w' \<equiv> snd (attempt_url_fix e (Some u) t s w)"
  assumes "is_working (fst (validate_url e u 5 w))"
  shows "final_status r = py ''Already Working'' \<and> working_url r = Some u
       \<and> map attempt_url (fix_attempts r) = [u]
       \<and> map attempt_strategy (fix_attempts r) = [py ''Original URL'']
       \<and> validate_calls w' = validate_calls w @ [u]"
proof -
  from assms(3) validate_url_empty_not_working have ne: "u \<noteq> []" by blast
  obtain v w1 where v: "validate_url e u 5 w = (v, w1)" by (cases "validate_url e u 5 w")
  with assms(3) have wk: "is_working v" by simp
  from ne v wk validate_url_calls [OF v] show ?thesis
    by (simp add: r_def w'_def attempt_url_fix_def Let_def)
qed

theorem attempt_url_fix_already_working_witness:
  "is_working (fst (validate_url test_env (py ''https://example.org/'') 5 world0))
   \<and> final_status (fst (attempt_url_fix test_env (Some (py ''https://example.org/'')) [] [] world0))
       = py ''Already Working''
   \<and> working_url (fst (attempt_url_fix test_env (Some (py ''https://example.org/'')) [] [] world0))
       = Some (py ''https://example.org/'')
   \<and> map attempt_url (fix_attempts
         (fst (attempt_url_fix test_env (Some (py ''https://example.org/'')) [] [] world0)))
       = [py ''https://example.org/'']
   \<and> validate_calls (snd (attempt_url_fix test_env (Some (py ''https://example.org/'')) [] [] world0))
       = [py ''https://example.org/'']"
  using test_env_found attempt_url_fix_already_working [OF test_env_found, of "[]" "[]"]
  by (simp add: world0_def)

text \<open>
  C9. For the empty string, or \<open>None\<close>, as original URL, \<open>attempt_url_fix\<close> returns at
  once with \<open>final_status\<close> "Not Fixed", no attempt, \<open>working_url\<close> \<open>None\<close> and
  \<open>issues_found\<close> the one-element list ["URL is empty"]; the trace is unchanged, so
  \<open>validate_url\<close> is not called.
\<close>

theorem attempt_url_fix_empty:
  assumes "original = None \<or> original = Some []"
  shows "attempt_url_fix e original t s w =
           (\<lparr>original_url = original, fix_title = t, fix_source = s, fix_attempts = [],
             final_status = py ''Not Fixed'', working_url = None, fix_strategy = None,
             issues_found = [py ''URL is empty'']\<rparr>, w)"
  using assms by (auto simp: attempt_url_fix_def)

theorem attempt_url_fix_empty_witness:
  "(Some [] = (None :: pystr option) \<or> Some [] = Some ([] :: pystr))
   \<and> attempt_url_fix test_env (Some []) (py ''A grant'') (py ''Sample'') world0 =
           (\<lparr>original_url = Some [], fix_title = py ''A grant'', fix_source = py ''Sample'',
             fix_attempts = [], final_status = py ''Not Fixed'', working_url = None,
             fix_strategy = None, issues_found = [py ''URL is empty'']\<rparr>, world0)"
proof -
  have h: "Some [] = (None :: pystr option) \<or> Some [] = Some ([] :: pystr)" by simp
  show ?thesis
    using h attempt_url_fix_empty [OF h, of test_env "py ''A grant''" "py ''Sample''" world0]
    by simp
qed

text \<open>
  C10. For every result of \<open>attempt_url_fix\<close>, \<open>working_url\<close> is not \<open>None\<close> if and only
  if \<open>final_status\<close> is "Fixed" or "Already Working"; and when \<open>final_status\<close> is "Fixed",
  \<open>fix_strategy\<close> is not \<open>None\<close> and names the strategy that produced \<open>working_url\<close>:
  an attempt that works is recorded under that name with that URL, and either the name
  is the \<open>i\<close>-th strategy name and the URL is the \<open>i\<close>-th strategy applied to the
  original URL, or the name is "Domain-specific fix" and the URL is one of the
  domain-specific candidates.
\<close>

theorem attempt_url_fix_working_url:
  fixes e original t s w
  defines "r \<equiv> fst (attempt_url_fix e original t s w)"
  shows "(working_url r \<noteq> None \<longleftrightarrow>
            final_status r = py ''Fixed'' \<or> final_status r = py ''Already Working'')
       \<and> (final_status r = py ''Fixed'' \<longrightarrow>
            (\<exists>u name x a. original = Some u \<and> fix_strategy r = Some name \<and> working_url r = Some x
               \<and> a \<in> set (fix_attempts r) \<and> attempt_strategy a = name \<and> attempt_url a = x
               \<and> attempt_working a
               \<and> ((\<exists>i<length fix_strategies. name = strategy_names ! i \<and> x = (fix_strategies ! i) u)
                  \<or> (name = py ''Domain-specific fix'' \<and> x \<in> set (domain_fixes e u)))))"
proof (cases "original = None \<or> original = Some []")
  case True
  then show ?thesis by (auto simp: r_def attempt_url_fix_def)
next
  case False
  then obtain u where u: "original = Some u" "u \<noteq> []" by auto
  obtain v w1 where v: "validate_url e u 5 w = (v, w1)" by (cases "validate_url e u 5 w")
  show ?thesis
  proof (cases "is_working v")
    case True
    with u v show ?thesis by (simp add: r_def attempt_url_fix_def Let_def)
  next
    case nw: False
    have run: "attempt_url_fix e (Some u) t s w = (r, snd (attempt_url_fix e (Some u) t s w))"
      by (simp add: r_def u)
    from attempt_url_fix_broken [OF u(2) v nw run] obtain first new where
      f: "fix_attempts r = first # new"
      and p: "\<forall>a\<in>set new.
            (\<exists>p\<in>set (zip fix_strategies strategy_names). attempt_strategy a = snd p \<and> attempt_url a = fst p u)
          \<or> attempt_strategy a = py ''Domain-specific fix'' \<and> attempt_url a \<in> set (domain_fixes e u)"
      and o: "(\<forall>a\<in>set new. \<not> attempt_working a) \<and> final_status r = py ''Not Fixed''
            \<and> working_url r = None \<and> fix_strategy r = None
          \<or> (\<exists>old a. new = old @ [a] \<and> (\<forall>b\<in>set old. \<not> attempt_working b) \<and> attempt_working a
                \<and> final_status r = py ''Fixed'' \<and> working_url r = Some (attempt_url a)
                \<and> fix_strategy r = Some (attempt_strategy a))"
      by blast
    from o show ?thesis
    proof
      assume "(\<forall>a\<in>set new. \<not> attempt_working a) \<and> final_status r = py ''Not Fixed''
            \<and> working_url r = None \<and> fix_strategy r = None"
      then show ?thesis by simp
    next
      assume "\<exists>old a. new = old @ [a] \<and> (\<forall>b\<in>set old. \<not> attempt_working b) \<and> attempt_working a
                \<and> final_status r = py ''Fixed'' \<and> working_url r = Some (attempt_url a)
                \<and> fix_strategy r = Some (attempt_strategy a)"
      then obtain old a where oa: "new = old @ [a]" "attempt_working a"
        "final_status r = py ''Fixed''" "working_url r = Some (attempt_url a)"
        "fix_strategy r = Some (attempt_strategy a)" by blast
      have mem: "a \<in> set (fix_attempts r)" using f oa by simp
      from p oa have "(\<exists>p\<in>set (zip fix_strategies strategy_names). attempt_strategy a = snd p \<and> attempt_url a = fst p u)
          \<or> attempt_strategy a = py ''Domain-specific fix'' \<and> attempt_url a \<in> set (domain_fixes e u)"
        by simp
      then have prov: "(\<exists>i<length fix_strategies. attempt_strategy a = strategy_names ! i
                         \<and> attempt_url a = (fix_strategies ! i) u)
                  \<or> (attempt_strategy a = py ''Domain-specific fix'' \<and> attempt_url a \<in> set (domain_fixes e u))"
      proof
        assume "\<exists>p\<in>set (zip fix_strategies strategy_names).
                  attempt_strategy a = snd p \<and> attempt_url a = fst p u"
        then obtain p where p: "p \<in> set (zip fix_strategies strategy_names)"
          "attempt_strategy a = snd p" "attempt_url a = fst p u" by blast
        from p(1) obtain i where i: "i < length fix_strategies" "fix_strategies ! i = fst p"
          "strategy_names ! i = snd p" by (auto simp: in_set_zip)
        with p have "i < length fix_strategies \<and> attempt_strategy a = strategy_names ! i
                         \<and> attempt_url a = (fix_strategies ! i) u" by simp
        then show ?thesis by blast
      next
        assume "attempt_strategy a = py ''Domain-specific fix'' \<and> attempt_url a \<in> set (domain_fixes e u)"
        then show ?thesis by blast
      qed
      show ?thesis using u oa mem prov by auto
    qed
  qed
qed


theorem attempt_url_fix_working_url_witness:
  "final_status (fst (attempt_url_fix test_env (Some (py ''http://example.org/'')) [] [] world0))
       = py ''Fixed''
   \<and> working_url (fst (attempt_url_fix test_env (Some (py ''http://example.org/'')) [] [] world0))
       = Some ((fix_strategies ! 2) (py ''http://example.org/''))
   \<and> fix_strategy (fst (attempt_url_fix test_env (Some (py ''http://example.org/'')) [] [] world0))
       = Some (strategy_names ! 2)"
proof -
  have s2: "(fix_strategies ! 2) (py ''http://example.org/'') = py ''https://example.org/''"
    by (simp add: fix_strategies_def replace_def py_def startswith_def)
  have n2: "strategy_names ! 2 = py ''Try HTTPS instead of HTTP''"
    by (simp add: strategy_names_def)
  show ?thesis
    using attempt_url_fix_working_url [of test_env "Some (py ''http://example.org/'')" "[]" "[]" world0]
    by (simp add: test_env_repair s2 n2)
qed

text \<open>
  C5. Rewrite strategy 5, \<open>url.replace('///', '//').replace('////', '//')\<close>, on a URL
  with a run of four slashes: the first \<open>replace\<close> turns the run into three slashes, the
  second finds no run of four any more, and the result keeps three slashes.
\<close>

theorem strategy_5_quadruple_slash:
  "(fix_strategies ! 4) (py ''http:////example.com'') = py ''http:///example.com''"
  by (simp add: fix_strategies_def replace_def py_def startswith_def)

text \<open>A run of three slashes does become two.\<close>

lemma strategy_5_triple_slash:
  "(fix_strategies ! 4) (py ''http:///example.com'') = py ''http://example.com''"
  by (simp add: fix_strategies_def replace_def py_def startswith_def)

section \<open>Properties of the urgency sort\<close>

lemma get_deadline_priority_eq:
  "get_deadline_priority item = (bucket item, days_or_sentinel item)"
  by (simp add: get_deadline_priority_def bucket_def days_or_sentinel_def Let_def)

lemma sorted_keys: "sorted (map get_deadline_priority (sort_by_deadline results))"
  by (simp add: sort_by_deadline_def)

lemma key_le_iff:
  "get_deadline_priority a \<le> get_deadline_priority b \<longleftrightarrow>
     bucket a < bucket b \<or> (bucket a = bucket b \<and> days_or_sentinel a \<le> days_or_sentinel b)"
  by (auto simp: get_deadline_priority_eq less_eq_prod_def)

lemma missing_after_near:
  assumes "days_until_deadline a = None" "days_or_sentinel b \<le> 90"
  shows "\<not> get_deadline_priority a \<le> get_deadline_priority b"
  using assms by (auto simp: key_le_iff bucket_def days_or_sentinel_def)

text \<open>
  C3. The list returned by \<open>_sort_by_deadline\<close> is a rearrangement of its argument in
  which, for any two adjacent records \<open>a\<close>, \<open>b\<close>, \<open>bucket a \<le> bucket b\<close>, where the bucket
  is 1 below 30 days, 2 below 90 and 3 otherwise, and the days of \<open>a\<close> are at most those
  of \<open>b\<close> when the buckets are equal. A record without deadline counts 999 days, is in
  bucket 3 and comes after every record with at most 90 days.
\<close>

theorem sort_by_deadline_urgency:
  fixes results :: "'a opportunity_scheme list"
  defines "out \<equiv> sort_by_deadline results"
  shows "mset out = mset results
       \<and> (\<forall>i. Suc i < length out \<longrightarrow>
            bucket (out ! i) \<le> bucket (out ! Suc i)
            \<and> (bucket (out ! i) = bucket (out ! Suc i) \<longrightarrow>
                 days_or_sentinel (out ! i) \<le> days_or_sentinel (out ! Suc i)))
       \<and> (\<forall>i j. i < length out \<and> j < length out \<and> days_until_deadline (out ! i) = None
                 \<and> days_or_sentinel (out ! j) \<le> 90 \<longrightarrow>
            days_or_sentinel (out ! i) = 999 \<and> bucket (out ! i) = 3 \<and> j < i)"
proof -
  have s: "sorted (map get_deadline_priority out)" unfolding out_def by (rule sorted_keys)
  have mono: "get_deadline_priority (out ! i) \<le> get_deadline_priority (out ! j)"
    if "i \<le> j" "j < length out" for i j
    using sorted_nth_mono [OF s, of i j] that by simp
  have 1: "mset out = mset results" by (simp add: out_def sort_by_deadline_def)
  have 2: "bucket (out ! i) \<le> bucket (out ! Suc i)
            \<and> (bucket (out ! i) = bucket (out ! Suc i) \<longrightarrow>
                 days_or_sentinel (out ! i) \<le> days_or_sentinel (out ! Suc i))"
    if "Suc i < length out" for i
    using mono [of i "Suc i"] that by (auto simp: key_le_iff)
  have 3: "days_or_sentinel (out ! i) = 999 \<and> bucket (out ! i) = 3 \<and> j < i"
    if "i < length out \<and> j < length out \<and> days_until_deadline (out ! i) = None
                 \<and> days_or_sentinel (out ! j) \<le> 90" for i j
  proof -
    from that have m: "days_until_deadline (out ! i) = None" and n: "days_or_sentinel (out ! j) \<le> 90"
      and j: "j < length out" by simp_all
    have "\<not> i \<le> j" using mono [of i j] j missing_after_near [OF m n] by blast
    with m show ?thesis by (simp add: bucket_def days_or_sentinel_def)
  qed
  from 1 2 3 show ?thesis by blast
qed

lemma test_results_sorted:
  "sort_by_deadline test_results = [test_results ! 2, test_results ! 1, test_results ! 0]"
  by (simp add: sort_by_deadline_def test_results_def get_deadline_priority_def less_eq_prod_def)


theorem sort_by_deadline_urgency_witness:
  "days_until_deadline (sort_by_deadline test_results ! 2) = None
   \<and> days_or_sentinel (sort_by_deadline test_results ! 1) \<le> 90
   \<and> days_or_sentinel (sort_by_deadline test_results ! 2) = 999
   \<and> bucket (sort_by_deadline test_results ! 2) = 3
   \<and> bucket (sort_by_deadline test_results ! 0) \<le> bucket (sort_by_deadline test_results ! 1)
   \<and> bucket (sort_by_deadline test_results ! 1) = bucket (sort_by_deadline test_results ! 2)
   \<and> days_or_sentinel (sort_by_deadline test_results ! 1)
        \<le> days_or_sentinel (sort_by_deadline test_results ! 2)
   \<and> mset (sort_by_deadline test_results) = mset test_results"
proof -
  let ?out = "sort_by_deadline test_results"
  have l: "length ?out = 3"
    by (simp add: test_results_sorted)
  have m: "days_until_deadline (?out ! 2) = None"
    by (simp add: test_results_sorted) (simp add: test_results_def)
  have n: "days_or_sentinel (?out ! 1) \<le> 90"
    by (simp add: test_results_sorted) (simp add: test_results_def days_or_sentinel_def)
  have b: "bucket (?out ! 1) = bucket (?out ! 2)"
    by (simp add: test_results_sorted) (simp add: test_results_def days_or_sentinel_def bucket_def)
  note t = sort_by_deadline_urgency [of test_results]
  from t have perm: "mset ?out = mset test_results" by blast
  from t have adj: "Suc i < length ?out \<longrightarrow>
            bucket (?out ! i) \<le> bucket (?out ! Suc i)
            \<and> (bucket (?out ! i) = bucket (?out ! Suc i) \<longrightarrow>
                 days_or_sentinel (?out ! i) \<le> days_or_sentinel (?out ! Suc i))" for i
    by blast
  from t have miss: "2 < length ?out \<and> 1 < length ?out \<and> days_until_deadline (?out ! 2) = None
                 \<and> days_or_sentinel (?out ! 1) \<le> 90 \<longrightarrow>
            days_or_sentinel (?out ! 2) = 999 \<and> bucket (?out ! 2) = 3 \<and> (1::nat) < 2"
    by blast
  have s2: "Suc 1 = (2::nat)" by simp
  from adj [of 0] l have a0: "bucket (?out ! 0) \<le> bucket (?out ! 1)" by simp
  from adj [of 1] l b have a1: "days_or_sentinel (?out ! 1) \<le> days_or_sentinel (?out ! 2)"
    unfolding s2 by simp
  from miss l m n have a2: "days_or_sentinel (?out ! 2) = 999 \<and> bucket (?out ! 2) = 3" by simp
  from m n a0 a1 a2 b perm show ?thesis by blast
qed

section \<open>Properties of the funding aggregation\<close>

lemma float_digits_None_iff:
  "float_digits e acc s \<noteq> None \<longleftrightarrow> list_all (\<lambda>c. decimal_value e c \<noteq> None) s"
  by (induction s arbitrary: acc) (auto split: option.splits)

lemma parse_amount_str:
  "amount_max r = Some (PyStr s) \<Longrightarrow>
     parse_amount e r =
       (if isdigit e (clean_amount s) then float_digits e 0 (clean_amount s) else None)"
  by (auto simp: parse_amount_def truthy_def isdigit_def Let_def)

lemma parse_amount_missing: "amount_max r = None \<Longrightarrow> parse_amount e r = Some 0"
  by (simp add: parse_amount_def truthy_def isdigit_def isdigit_char_def decimal_value_def
        clean_amount_def strip_def isspace_def replace_def euro_def startswith_def py_def)

lemma parse_amount_not_str:
  "amount_max r = Some v \<Longrightarrow> \<forall>s. v \<noteq> PyStr s \<Longrightarrow> parse_amount e r = None"
  by (cases v) (simp_all add: parse_amount_def truthy_def)

lemma plain_integer_iff:
  "plain_integer e s \<longleftrightarrow> isdigit e s \<and> float_digits e 0 s \<noteq> None"
  unfolding plain_integer_def isdigit_def float_digits_None_iff list_all_iff by blast

lemma clean_50000: "clean_amount (py ''50,000'') = py ''50000''"
  by (simp add: clean_amount_def strip_def isspace_def replace_def euro_def startswith_def py_def)

lemma clean_na: "clean_amount (py ''N/A'') = py ''N/A''"
  by (simp add: clean_amount_def strip_def isspace_def replace_def euro_def startswith_def py_def)

text \<open>
  What one round of the loop appends, for every record and environment: a record
  contributes if and only if it has no \<open>amount_max\<close> key, or its \<open>amount_max\<close> is a
  string that, once commas, the euro sign and "EUR" are removed and the surrounding
  whitespace is stripped, is a non-empty string of decimal digits. "50,000" gives 50000
  and "N/A" gives nothing.
\<close>

lemma parse_amount_cases:
  "(parse_amount e r \<noteq> None \<longleftrightarrow>
      amount_max r = None
      \<or> (\<exists>s. amount_max r = Some (PyStr s) \<and> plain_integer e (clean_amount s)))
   \<and> (amount_max r = None \<longrightarrow> parse_amount e r = Some 0)
   \<and> (amount_max r = Some (PyStr (py ''50,000'')) \<longrightarrow> parse_amount e r = Some 50000)
   \<and> (amount_max r = Some (PyStr (py ''N/A'')) \<longrightarrow> parse_amount e r = None)"
proof -
  have 1: "parse_amount e r \<noteq> None \<longleftrightarrow>
      amount_max r = None
      \<or> (\<exists>s. amount_max r = Some (PyStr s) \<and> plain_integer e (clean_amount s))"
  proof (cases "amount_max r")
    case None
    then show ?thesis by (simp add: parse_amount_missing)
  next
    case (Some v)
    show ?thesis
    proof (cases "\<exists>s. v = PyStr s")
      case True
      then obtain s where "v = PyStr s" by blast
      with Some show ?thesis by (simp add: parse_amount_str plain_integer_iff)
    next
      case False
      with Some parse_amount_not_str [OF Some] show ?thesis by simp
    qed
  qed
  have 2: "amount_max r = None \<longrightarrow> parse_amount e r = Some 0"
    by (simp add: parse_amount_missing)
  have 3: "amount_max r = Some (PyStr (py ''50,000'')) \<longrightarrow> parse_amount e r = Some 50000"
    by (simp add: parse_amount_str clean_50000)
       (simp add: isdigit_def isdigit_char_def decimal_value_def py_def)
  have 4: "amount_max r = Some (PyStr (py ''N/A'')) \<longrightarrow> parse_amount e r = None"
    by (simp add: parse_amount_str clean_na)
       (simp add: isdigit_def isdigit_char_def py_def)
  from 1 2 3 4 show ?thesis by blast
qed

text \<open>
  The list \<open>amounts\<close>, for every list of records: its members are what the records that
  contribute append, in the order of the records.
\<close>

lemma amounts_Nil: "amounts e [] = []"
  by (simp add: amounts_def List.map_filter_def)

lemma amounts_Cons:
  "amounts e (r # rs) = (case parse_amount e r of None \<Rightarrow> [] | Some a \<Rightarrow> [a]) @ amounts e rs"
  by (simp add: amounts_def List.map_filter_def split: option.splits)

lemma amounts_members:
  "a \<in> set (amounts e rs) \<longleftrightarrow> (\<exists>r\<in>set rs. parse_amount e r = Some a)"
  by (induction rs) (auto simp: amounts_Nil amounts_Cons split: option.splits)

lemma amounts_length:
  "length (amounts e rs) = length (filter (\<lambda>r. parse_amount e r \<noteq> None) rs)"
  by (induction rs) (auto simp: amounts_Nil amounts_Cons split: option.splits)

text \<open>
  C7. The funding aggregation on three records: one without \<open>amount_max\<close> key, one
  with "50,000", one with "N/A". The claim has only the second contribute, which would
  give the amounts [50000] and the minimum and the average 50000. The code gives the
  record without the key the default "0" of \<open>result.get\<close>, which passes \<open>isdigit\<close>: it
  contributes 0, the amounts are [0, 50000], the minimum is 0 and the average 25000.
  "N/A" is excluded, as the claim says.
\<close>

theorem amounts_missing_key:
  "amount_max (test_results ! 0) = None
   \<and> parse_amount test_env (test_results ! 0) = Some 0
   \<and> amounts test_env test_results = [0, 50000]
   \<and> total_funding (amounts test_env test_results) = 50000
   \<and> avg_funding (amounts test_env test_results) = 25000
   \<and> max_funding (amounts test_env test_results) = 50000
   \<and> min_funding (amounts test_env test_results) = 0"
proof -
  have a: "amount_max (test_results ! 0) = None" by (simp add: test_results_def)
  have p: "parse_amount test_env (test_results ! 0) = Some 0"
    using a by (rule parse_amount_missing)
  have q: "amounts test_env test_results = [0, 50000]"
    by (simp add: amounts_def List.map_filter_def test_results_def parse_amount_missing
          parse_amount_str clean_50000 clean_na)
       (simp add: isdigit_def isdigit_char_def decimal_value_def py_def)
  from a p q show ?thesis
    by (simp add: min_funding_def max_funding_def total_funding_def avg_funding_def)
qed

section \<open>Properties of \<open>search_all\<close>\<close>

text \<open>
  C4. \<open>search_all\<close> with limit 2 and the European source on gives each source the share
  \<open>2 div 2 = 1\<close>; the French endpoint answers 401, \<open>search_subventions\<close> falls back to
  the sample data, and the French list has three records. With the Colombian source on
  as well the share is \<open>2 div 3 = 0\<close>: the European list is empty, the Colombian list
  keeps both of its candidates, since \<open>if limit:\<close> skips the cut at 0.
\<close>

theorem search_all_over_share:
  "length (french (search_all test_env test_sources [] [] [] [] True False 2)) = 3
   \<and> (2::int) div 2 = 1
   \<and> length (colombian (search_all test_env test_sources [] [] [] [] True True 2)) = 2
   \<and> length (european (search_all test_env test_sources [] [] [] [] True True 2)) = 0
   \<and> (2::int) div 3 = 0"
  by (simp add: search_all_def sort_by_deadline_def search_subventions_def test_sources_def
        get_sample_french_data_def sample_data_def search_colombian_funding_def
        search_european_subventions_def slice_to_def Let_def)

text \<open>
  What does hold of the shares: a source that is switched off returns nothing, and the
  European list is within its share when the limit is not negative.
\<close>

lemma slice_to_length: "0 \<le> n \<Longrightarrow> length (slice_to n xs) \<le> nat n"
  by (simp add: slice_to_def)

lemma search_all_shares:
  "european (search_all e src k r er cr False ic limit) = []"
  "colombian (search_all e src k r er cr ie False limit) = []"
  "0 \<le> limit \<Longrightarrow> length (european (search_all e src k r er cr ie ic limit))
      \<le> nat (limit div (1 + (if ie then 1 else 0) + (if ic then 1 else 0)))"
  by (simp_all add: search_all_def sort_by_deadline_def search_european_subventions_def
        slice_to_def Let_def pos_imp_zdiv_nonneg_iff)

end
